theory Spec2Isabelle
  imports Complex_Main "HOL-Library.Log_Nat"
begin

section \<open>JavaScript numbers\<close>

text \<open>
  A JavaScript Number is an IEEE 754 binary64 value.  \<open>Fin x\<close> is the finite double whose
  mathematical value is the rational \<open>x\<close>; the two zeros are identified (the scorer never
  divides by a zero and never prints one: every zero it could produce is replaced by the
  minimum amount or by the default average).  Every arithmetic operation computes the exact
  rational result and rounds it to the nearest double, ties to the even mantissa, as
  ECMAScript prescribes.
\<close>

datatype jsnum = NaN | PInf | NInf | Fin rat

text \<open>\<open>ilog2 a\<close> is the integer \<open>e\<close> with \<open>2^e \<le> a < 2^(e+1)\<close>, for \<open>a > 0\<close>.\<close>

definition ilog2 :: "rat \<Rightarrow> int" where
  "ilog2 a = (if 1 \<le> a then bitlen \<lfloor>a\<rfloor> - 1 else - bitlen (\<lceil>1 / a\<rceil> - 1))"

definition roundHalfEven :: "rat \<Rightarrow> int" where
  "roundHalfEven r =
     (let f = \<lfloor>r\<rfloor>; d = r - of_int f
      in if d < 1 / 2 then f else if 1 / 2 < d then f + 1 else if even f then f else f + 1)"

text \<open>
  Rounding to binary64: 53 significant bits, least exponent \<open>-1022\<close> (below it the spacing
  stays \<open>2^-1074\<close>: subnormal numbers), overflow to an infinity from \<open>2^1024\<close> on.
\<close>

definition round64 :: "rat \<Rightarrow> jsnum" where
  "round64 x =
     (if x = 0 then Fin 0
      else let a = \<bar>x\<bar>;
               q = max (ilog2 a) (- 1022) - 52;
               y = of_int (roundHalfEven (a / 2 powi q)) * 2 powi q
           in if 2 ^ 1024 \<le> y then (if 0 < x then PInf else NInf) else Fin (sgn x * y))"

text \<open>The sign of a number that is not NaN: \<open>-1\<close>, \<open>0\<close> or \<open>1\<close>.\<close>

fun num_sgn :: "jsnum \<Rightarrow> rat" where
  "num_sgn NaN = 0"
| "num_sgn PInf = 1"
| "num_sgn NInf = - 1"
| "num_sgn (Fin x) = sgn x"

text \<open>\<open>a + b\<close>\<close>

fun num_add :: "jsnum \<Rightarrow> jsnum \<Rightarrow> jsnum" where
  "num_add NaN b = NaN"
| "num_add a NaN = NaN"
| "num_add (Fin x) (Fin y) = round64 (x + y)"
| "num_add PInf NInf = NaN"
| "num_add NInf PInf = NaN"
| "num_add PInf b = PInf"
| "num_add NInf b = NInf"
| "num_add a PInf = PInf"
| "num_add a NInf = NInf"

text \<open>\<open>a * b\<close>: an infinity times zero is NaN.\<close>

fun num_mult :: "jsnum \<Rightarrow> jsnum \<Rightarrow> jsnum" where
  "num_mult NaN b = NaN"
| "num_mult a NaN = NaN"
| "num_mult (Fin x) (Fin y) = round64 (x * y)"
| "num_mult a b =
     (let s = num_sgn a * num_sgn b in if s = 0 then NaN else if 0 < s then PInf else NInf)"

text \<open>
  \<open>a / b\<close>.  A zero divisor is read as \<open>+0\<close>; the scorer divides by the literal 500 only.
\<close>

fun num_div :: "jsnum \<Rightarrow> jsnum \<Rightarrow> jsnum" where
  "num_div NaN b = NaN"
| "num_div a NaN = NaN"
| "num_div (Fin x) (Fin y) =
     (if y = 0 then (if x = 0 then NaN else if 0 < x then PInf else NInf)
      else round64 (x / y))"
| "num_div (Fin x) b = Fin 0"
| "num_div a (Fin y) = (if 0 < num_sgn a * (if y = 0 then 1 else sgn y) then PInf else NInf)"
| "num_div a b = NaN"

text \<open>The relational operators \<open>a <= b\<close>, \<open>a >= b\<close>, \<open>a > b\<close>: false as soon as one side is NaN.\<close>

fun js_le :: "jsnum \<Rightarrow> jsnum \<Rightarrow> bool" where
  "js_le NaN b = False"
| "js_le a NaN = False"
| "js_le NInf b = True"
| "js_le a PInf = True"
| "js_le (Fin x) (Fin y) = (x \<le> y)"
| "js_le a b = False"

definition js_ge :: "jsnum \<Rightarrow> jsnum \<Rightarrow> bool" where
  "js_ge a b = js_le b a"

fun js_gt :: "jsnum \<Rightarrow> jsnum \<Rightarrow> bool" where
  "js_gt NaN b = False"
| "js_gt a NaN = False"
| "js_gt a b = (\<not> js_le a b)"

text \<open>
  \<open>Math.round\<close>: the nearest integer, a half rounded towards \<open>+\<infinity>\<close>.  The result of a
  finite double is a double again, so no second rounding takes place.
\<close>

fun Math_round :: "jsnum \<Rightarrow> jsnum" where
  "Math_round (Fin x) = Fin (of_int \<lfloor>x + 1 / 2\<rfloor>)"
| "Math_round n = n"

text \<open>\<open>Math.max\<close> and \<open>Math.min\<close> of two arguments: NaN as soon as one argument is NaN.\<close>

fun Math_max :: "jsnum \<Rightarrow> jsnum \<Rightarrow> jsnum" where
  "Math_max NaN b = NaN"
| "Math_max a NaN = NaN"
| "Math_max a b = (if js_le a b then b else a)"

fun Math_min :: "jsnum \<Rightarrow> jsnum \<Rightarrow> jsnum" where
  "Math_min NaN b = NaN"
| "Math_min a NaN = NaN"
| "Math_min a b = (if js_le a b then a else b)"

text \<open>
  For the error analysis: one rounding moves a positive number by a factor between
  \<open>1 - 2^-53\<close> and \<open>1 + 2^-53\<close>; \<open>near t x y\<close> says that \<open>y\<close> is \<open>x\<close> after \<open>t\<close> such factors.
\<close>

definition lo53 :: rat where "lo53 = 1 - 1 / 2 ^ 53"
definition hi53 :: rat where "hi53 = 1 + 1 / 2 ^ 53"

definition near :: "nat \<Rightarrow> rat \<Rightarrow> rat \<Rightarrow> bool" where
  "near t x y = (x * lo53 ^ t \<le> y \<and> y \<le> x * hi53 ^ t)"

text \<open>
  Two classes of numbers: the positive finite ones (what a table of averages holds), and
  those that are zero or more, \<open>+\<infinity>\<close> included.
\<close>

fun positive_number :: "jsnum \<Rightarrow> bool" where
  "positive_number (Fin x) = (0 < x)"
| "positive_number n = False"

fun nonneg_number :: "jsnum \<Rightarrow> bool" where
  "nonneg_number (Fin x) = (0 \<le> x)"
| "nonneg_number PInf = True"
| "nonneg_number n = False"

section \<open>Values, property reads and conversions\<close>

text \<open>
  The result of reading \<open>obj[key]\<close> on an object literal: \<open>undefined\<close>, the value of an own
  property, or the function or object that \<open>Object.prototype\<close> supplies under that name
  (an object literal inherits from \<open>Object.prototype\<close>).
\<close>

datatype 'a js_prop = Undefined | Own 'a | Inherited string

definition Object_prototype_names :: "string list" where
  "Object_prototype_names =
     [''constructor'', ''__defineGetter__'', ''__defineSetter__'', ''hasOwnProperty'',
      ''__lookupGetter__'', ''__lookupSetter__'', ''isPrototypeOf'', ''propertyIsEnumerable'',
      ''toString'', ''valueOf'', ''__proto__'', ''toLocaleString'']"

definition get_prop :: "(string \<rightharpoonup> 'a) \<Rightarrow> string \<Rightarrow> 'a js_prop" where
  "get_prop obj key =
     (case obj key of
        Some v \<Rightarrow> Own v
      | None \<Rightarrow> if key \<in> set Object_prototype_names then Inherited key else Undefined)"

text \<open>A request field holds what the form control's \<open>value\<close> holds, a string, or is missing.\<close>

datatype strval = SUndefined | SStr string

fun ToString :: "strval \<Rightarrow> string" where
  "ToString SUndefined = ''undefined''"
| "ToString (SStr s) = s"

text \<open>
  \<open>ToNumber\<close> of a table entry: an inherited function or object converts through its
  string form, which is no numeric literal, so to NaN.
\<close>

fun ToNumber :: "jsnum js_prop \<Rightarrow> jsnum" where
  "ToNumber Undefined = NaN"
| "ToNumber (Own n) = n"
| "ToNumber (Inherited k) = NaN"

text \<open>\<open>ToBoolean\<close>: \<open>undefined\<close>, NaN and zero are falsy, every object is truthy.\<close>

fun ToBoolean_num :: "jsnum js_prop \<Rightarrow> bool" where
  "ToBoolean_num Undefined = False"
| "ToBoolean_num (Own n) = (n \<noteq> NaN \<and> n \<noteq> Fin 0)"
| "ToBoolean_num (Inherited k) = True"

fun ToBoolean_obj :: "'a js_prop \<Rightarrow> bool" where
  "ToBoolean_obj Undefined = False"
| "ToBoolean_obj (Own v) = True"
| "ToBoolean_obj (Inherited k) = True"

datatype js_error = TypeError

definition bind_err :: "js_error + 'a \<Rightarrow> ('a \<Rightarrow> js_error + 'b) \<Rightarrow> js_error + 'b" where
  "bind_err m f = (case m of Inl e \<Rightarrow> Inl e | Inr v \<Rightarrow> f v)"

section \<open>parseInt\<close>

text \<open>
  \<open>parseInt(string)\<close> with no radix: leading white space is dropped, then an optional sign,
  then an optional \<open>0x\<close> or \<open>0X\<close> that selects radix 16 (radix 10 otherwise); the longest
  run of digits of that radix is the number; no digit gives NaN.  Characters are the code
  units below 256.
\<close>

definition isWhiteSpace :: "char \<Rightarrow> bool" where
  "isWhiteSpace c = (of_char c \<in> {9, 10, 11, 12, 13, 32, 160 :: nat})"

definition digitValue :: "char \<Rightarrow> nat" where
  "digitValue c =
     (let n = of_char c :: nat
      in if 48 \<le> n \<and> n \<le> 57 then n - 48
         else if 65 \<le> n \<and> n \<le> 90 then n - 55
         else if 97 \<le> n \<and> n \<le> 122 then n - 87
         else 36)"

definition parseInt :: "string \<Rightarrow> jsnum" where
  "parseInt inputString =
     (let S = dropWhile isWhiteSpace inputString;
          sign = (if S \<noteq> [] \<and> hd S = CHR ''-'' then - 1 else 1 :: int);
          S = (if S \<noteq> [] \<and> (hd S = CHR ''+'' \<or> hd S = CHR ''-'') then tl S else S);
          hex = (take 2 S = ''0x'' \<or> take 2 S = ''0X'');
          R = (if hex then 16 else 10 :: nat);
          S = (if hex then drop 2 S else S);
          Z = takeWhile (\<lambda>c. digitValue c < R) S
      in if Z = [] then NaN
         else round64 (of_int (sign * int (foldl (\<lambda>n c. n * R + digitValue c) 0 Z))))"

section \<open>Application data\<close>

record userProfile =
  avg_amount :: jsnum
  cluster :: jsnum
  cluster_name :: string
  transactions :: jsnum
  preferred_category :: string

text \<open>
  Of \<open>appData\<close> the two tables the scorer reads; \<open>clusterData\<close> and \<open>modelPerformance\<close>
  feed the charts only.
\<close>

record app_data =
  userProfiles :: "string \<rightharpoonup> userProfile"
  categoryAverages :: "string \<rightharpoonup> jsnum"

text \<open>The script's global variables: \<open>appData\<close> and the registry of chart instances.\<close>

record 'c globals =
  appData :: app_data
  charts :: "string \<rightharpoonup> 'c"

definition appData_literal :: app_data where
  "appData_literal =
     \<lparr>userProfiles = map_of
        [(''USER_0001'', \<lparr>avg_amount = Fin 1017, cluster = Fin 1,
            cluster_name = ''High-Value Users'', transactions = Fin 8,
            preferred_category = ''Entertainment''\<rparr>),
         (''USER_0002'', \<lparr>avg_amount = Fin 1004, cluster = Fin 1,
            cluster_name = ''High-Value Users'', transactions = Fin 8,
            preferred_category = ''Healthcare''\<rparr>),
         (''USER_0003'', \<lparr>avg_amount = Fin 850, cluster = Fin 0,
            cluster_name = ''Conservative Spenders'', transactions = Fin 6,
            preferred_category = ''Groceries''\<rparr>),
         (''USER_0655'', \<lparr>avg_amount = Fin 1360, cluster = Fin 3,
            cluster_name = ''Active Users'', transactions = Fin 12,
            preferred_category = ''Food & Dining''\<rparr>),
         (''USER_0755'', \<lparr>avg_amount = Fin 713, cluster = Fin 2,
            cluster_name = ''Frequent Small Transactions'', transactions = Fin 15,
            preferred_category = ''Transportation''\<rparr>)],
      categoryAverages = map_of
        [(''Food & Dining'', Fin 255),
         (''Transportation'', Fin 118),
         (''Shopping'', Fin 842),
         (''Bills & Utilities'', Fin 674),
         (''Entertainment'', Fin 398),
         (''Healthcare'', Fin 823),
         (''Education'', Fin 1987),
         (''Groceries'', Fin 354),
         (''Fuel'', Fin 512),
         (''Transfer to Friends'', Fin 1634)]\<rparr>"

text \<open>The globals when the script has loaded: the literal tables and no chart yet.\<close>

definition globals_loaded :: "'c globals" where
  "globals_loaded = \<lparr>appData = appData_literal, charts = Map.empty\<rparr>"

text \<open>
  Two variants for examples: the tables with one more category, Cinema, at the average 398,
  and the globals once two charts have been created.
\<close>

definition globals_cinema :: "unit globals" where
  "globals_cinema = globals_loaded
     \<lparr>appData := appData_literal
        \<lparr>categoryAverages := (categoryAverages appData_literal)(''Cinema'' \<mapsto> Fin 398)\<rparr>\<rparr>"

definition globals_charted :: "unit globals" where
  "globals_charted = globals_loaded \<lparr>charts := [''spending'' \<mapsto> (), ''category'' \<mapsto> ()]\<rparr>"

section \<open>The scorer\<close>

record params =
  userId :: strval
  category :: strval
  location :: strval
  paymentMethod :: strval
  hour :: strval

record recommendation =
  amount :: "jsnum js_prop"
  confidence :: jsnum
  cluster :: strval
  reasoning :: string

text \<open>
  Reading a field of \<open>userProfile\<close>.  On \<open>undefined\<close> the read throws a TypeError; on an
  inherited function or object none of the profile fields exists, so the read gives
  \<open>undefined\<close>.
\<close>

fun get_num_field :: "(userProfile \<Rightarrow> jsnum) \<Rightarrow> userProfile js_prop \<Rightarrow> js_error + jsnum js_prop" where
  "get_num_field f Undefined = Inl TypeError"
| "get_num_field f (Own p) = Inr (Own (f p))"
| "get_num_field f (Inherited k) = Inr Undefined"

fun get_str_field :: "(userProfile \<Rightarrow> string) \<Rightarrow> userProfile js_prop \<Rightarrow> js_error + strval" where
  "get_str_field f Undefined = Inl TypeError"
| "get_str_field f (Own p) = Inr (SStr (f p))"
| "get_str_field f (Inherited k) = Inr SUndefined"

text \<open>
  The adjustment for the time of day (the \<open>if\<close> chain on \<open>hour\<close>); the decimal literals
  \<open>0.8\<close>, \<open>1.2\<close>, \<open>1.1\<close> and \<open>0.7\<close> denote the nearest doubles.
\<close>

definition hourMultiplier :: "jsnum \<Rightarrow> jsnum" where
  "hourMultiplier hour' =
     (if js_ge hour' (Fin 6) \<and> js_le hour' (Fin 10) then round64 (8 / 10)
      else if js_ge hour' (Fin 11) \<and> js_le hour' (Fin 14) then round64 (12 / 10)
      else if js_ge hour' (Fin 18) \<and> js_le hour' (Fin 22) then round64 (11 / 10)
      else round64 (7 / 10))"

text \<open>
  The amount as the written formula reads in exact arithmetic, for whole-number table
  entries: the hour multiplier in tenths, and the product rounded half up, at least 50.
\<close>

definition hour_tenths :: "jsnum \<Rightarrow> nat" where
  "hour_tenths h =
     (if js_ge h (Fin 6) \<and> js_le h (Fin 10) then 8
      else if js_ge h (Fin 11) \<and> js_le h (Fin 14) then 12
      else if js_ge h (Fin 18) \<and> js_le h (Fin 22) then 11
      else 7)"

definition exact_amount :: "nat \<Rightarrow> nat \<Rightarrow> jsnum \<Rightarrow> int" where
  "exact_amount base avg h =
     max \<lfloor>of_nat base * (of_nat avg / 500) * (of_nat (hour_tenths h) / 10) + 1 / 2 :: rat\<rfloor> 50"

text \<open>
  \<open>generateRecommendation(params)\<close>.  It reads the global \<open>appData\<close>, so the globals are an
  argument, and they are returned as the call leaves them.  The result is \<open>Inl\<close> when the
  call throws.  A local variable whose name is also a field name carries a prime.
\<close>

definition generateRecommendation ::
  "params \<Rightarrow> 'c globals \<Rightarrow> (js_error + recommendation) \<times> 'c globals" where
  "generateRecommendation params g =
     (let userProfile = get_prop (userProfiles (appData g)) (ToString (userId params));
          categoryAvg = get_prop (categoryAverages (appData g)) (ToString (category params))
      in if \<not> ToBoolean_obj userProfile then
           (Inr \<lparr>amount = (if ToBoolean_num categoryAvg then categoryAvg else Own (Fin 500)),
                 confidence = Fin 75,
                 cluster = SStr ''Unknown'',
                 reasoning = ''Based on category average and system patterns''\<rparr>, g)
         else
           (bind_err (get_num_field avg_amount userProfile) (\<lambda>baseAmount.
              let categoryMultiplier = num_div (ToNumber categoryAvg) (Fin 500);
                  hour' = parseInt (ToString (hour params));
                  recommendedAmount =
                    Math_round (num_mult (num_mult (ToNumber baseAmount) categoryMultiplier)
                                  (hourMultiplier hour'))
              in bind_err (get_str_field preferred_category userProfile) (\<lambda>preferred.
                 let confidence' = (if preferred = category params
                                   then num_add (Fin 70) (Fin 20) else Fin 70)
                 in bind_err (get_num_field transactions userProfile) (\<lambda>count.
                    let confidence' = (if js_gt (ToNumber count) (Fin 10)
                                      then num_add confidence' (Fin 10) else confidence');
                        confidence' = Math_min confidence' (Fin 95)
                    in bind_err (get_str_field cluster_name userProfile) (\<lambda>name.
                       Inr \<lparr>amount = Own (Math_max recommendedAmount (Fin 50)),
                             confidence = confidence',
                             cluster = name,
                             reasoning = ''Based on '' @ ToString name @ '' spending pattern, ''
                               @ ToString (category params)
                               @ '' preferences, and transaction time analysis''\<rparr>)))), g))"

section \<open>The rounding is the rounding of binary64\<close>

text \<open>
  \<open>ilog2\<close> is the binary exponent; the result of \<open>round64\<close> is a multiple of the spacing
  \<open>2^q\<close> of the doubles around \<open>x\<close> with a mantissa of at most 53 bits, below \<open>2^1024\<close>, and
  no further from \<open>x\<close> than half that spacing.
\<close>

lemma ilog2_bounds_ge1:
  assumes "1 \<le> a"
  shows "2 powi (ilog2 a) \<le> a \<and> a < 2 powi (ilog2 a + 1)"
proof -
  let ?n = "\<lfloor>a\<rfloor>"
  from assms have n: "0 < ?n" by simp
  from bitlen_bounds [OF n] have lo: "2 ^ nat (bitlen ?n - 1) \<le> ?n" and hi: "?n < 2 ^ nat (bitlen ?n)"
    by simp_all
  from n have b1: "1 \<le> bitlen ?n"
    using bitlen_eq_zero_iff [of ?n] bitlen_nonneg [of ?n] by linarith
  have il: "ilog2 a = bitlen ?n - 1" using assms by (simp add: ilog2_def)
  have "(2::rat) powi (bitlen ?n - 1) = 2 ^ nat (bitlen ?n - 1)"
    using b1 by (simp add: power_int_nonneg_exp)
  also have "\<dots> = of_int (2 ^ nat (bitlen ?n - 1))" by simp
  also have "\<dots> \<le> of_int ?n" using lo by (simp only: of_int_le_iff)
  also have "\<dots> \<le> a" by simp
  finally have 1: "2 powi (ilog2 a) \<le> a" by (simp add: il)
  have "a < of_int (?n + 1)" by linarith
  also have "\<dots> \<le> of_int (2 ^ nat (bitlen ?n))" using hi by (simp only: of_int_le_iff)
  also have "\<dots> = (2::rat) ^ nat (bitlen ?n)" by simp
  also have "\<dots> = 2 powi (bitlen ?n)" using b1 by (simp add: power_int_nonneg_exp)
  finally have 2: "a < 2 powi (ilog2 a + 1)" by (simp add: il)
  from 1 2 show ?thesis ..
qed


lemma ilog2_bounds_lt1:
  assumes "0 < a" and "a < 1"
  shows "2 powi (ilog2 a) \<le> a \<and> a < 2 powi (ilog2 a + 1)"
proof -
  let ?b = "1 / a"
  let ?N = "\<lceil>?b\<rceil>"
  let ?k = "bitlen (?N - 1)"
  from assms have b: "1 < ?b" by simp
  then have N: "0 < ?N - 1" by linarith
  from bitlen_bounds [OF N] have lo: "2 ^ nat (?k - 1) \<le> ?N - 1" and hi: "?N - 1 < 2 ^ nat ?k"
    by simp_all
  from N have k1: "1 \<le> ?k"
    using bitlen_eq_zero_iff [of "?N - 1"] bitlen_nonneg [of "?N - 1"] by linarith
  have il: "ilog2 a = - ?k" using assms by (simp add: ilog2_def)
  have "?b \<le> of_int ?N" by simp
  also have "\<dots> \<le> of_int (2 ^ nat ?k)" using hi by (simp only: of_int_le_iff)
  also have "\<dots> = (2::rat) ^ nat ?k" by simp
  finally have up: "?b \<le> 2 ^ nat ?k" .
  have "(2::rat) ^ nat (?k - 1) = of_int (2 ^ nat (?k - 1))" by simp
  also have "\<dots> \<le> of_int (?N - 1)" using lo by (simp only: of_int_le_iff)
  also have "\<dots> < ?b" by linarith
  finally have dn: "2 ^ nat (?k - 1) < ?b" .
  have p1: "(2::rat) powi (- ?k) = 1 / 2 ^ nat ?k"
    using k1 by (simp add: power_int_minus power_int_nonneg_exp field_simps)
  have p2: "(2::rat) powi (- ?k + 1) = 1 / 2 ^ nat (?k - 1)"
    using k1 power_int_minus [of "2::rat" "?k - 1"]
    by (simp add: power_int_nonneg_exp field_simps)
  from up assms(1) have 1: "1 / 2 ^ nat ?k \<le> a"
    by (simp add: field_simps)
  from dn assms(1) have 2: "a < 1 / 2 ^ nat (?k - 1)"
    by (simp add: field_simps)
  have p2': "(2::rat) powi (1 - ?k) = 1 / 2 ^ nat (?k - 1)"
    using p2 by (simp add: add.commute)
  from 1 2 show ?thesis
    by (simp add: il p1 p2')
qed

lemma ilog2_bounds:
  assumes "0 < a"
  shows "2 powi (ilog2 a) \<le> a" and "a < 2 powi (ilog2 a + 1)"
  using assms ilog2_bounds_ge1 [of a] ilog2_bounds_lt1 [of a] by (cases "1 \<le> a"; simp)+

lemma roundHalfEven_error: "\<bar>of_int (roundHalfEven r) - r\<bar> \<le> 1 / 2"
proof -
  have "of_int \<lfloor>r\<rfloor> \<le> r" "r < of_int \<lfloor>r\<rfloor> + 1"
    by linarith+
  then show ?thesis
    by (auto simp add: roundHalfEven_def Let_def abs_le_iff)
qed

lemma roundHalfEven_mono_bound:
  assumes "0 \<le> r" and "r < of_int n"
  shows "0 \<le> roundHalfEven r \<and> roundHalfEven r \<le> n"
proof -
  have f: "0 \<le> \<lfloor>r\<rfloor>" "\<lfloor>r\<rfloor> < n"
    using assms by (simp_all add: floor_less_iff)
  then show ?thesis
    by (auto simp add: roundHalfEven_def Let_def)
qed

lemma abs_scale:
  fixes u a p :: rat
  assumes "0 < p"
  shows "\<bar>u - a / p\<bar> * p = \<bar>u * p - a\<bar>"
proof -
  have "\<bar>u * p - a\<bar> = \<bar>(u - a / p) * p\<bar>"
    using assms by (simp add: left_diff_distrib)
  also have "\<dots> = \<bar>u - a / p\<bar> * \<bar>p\<bar>"
    by (rule abs_mult)
  finally show ?thesis
    using assms by simp
qed

lemma round64_error:
  assumes "round64 x = Fin y"
  shows "\<bar>y - x\<bar> \<le> 2 powi (max (ilog2 \<bar>x\<bar>) (- 1022) - 53)"
proof (cases "x = 0")
  case True
  with assms show ?thesis by (simp add: round64_def)
next
  case False
  define q where "q = max (ilog2 \<bar>x\<bar>) (- 1022) - 52"
  define m where "m = roundHalfEven (\<bar>x\<bar> / 2 powi q)"
  have pos: "(0::rat) < 2 powi q" by simp
  from assms False have y: "y = sgn x * (of_int m * 2 powi q)"
    by (simp add: round64_def Let_def q_def m_def split: if_splits)
  have "\<bar>of_int m - \<bar>x\<bar> / 2 powi q\<bar> \<le> 1 / 2"
    unfolding m_def by (rule roundHalfEven_error)
  then have "\<bar>of_int m - \<bar>x\<bar> / 2 powi q\<bar> * 2 powi q \<le> 1 / 2 * 2 powi q"
    using pos by (simp only: mult_le_cancel_right_pos)
  moreover have "\<bar>of_int m - \<bar>x\<bar> / 2 powi q\<bar> * 2 powi q = \<bar>of_int m * 2 powi q - \<bar>x\<bar>\<bar>"
    using pos by (rule abs_scale)
  ultimately have e: "\<bar>of_int m * 2 powi q - \<bar>x\<bar>\<bar> \<le> 1 / 2 * 2 powi q"
    by simp
  have "\<bar>y - x\<bar> = \<bar>of_int m * 2 powi q - \<bar>x\<bar>\<bar>"
    using False unfolding y by (cases "0 < x") (simp_all add: sgn_if abs_if)
  moreover have "1 / 2 * (2::rat) powi q = 2 powi (q - 1)"
    by (simp add: power_int_diff)
  ultimately show ?thesis
    using e by (simp add: q_def)
qed

lemma round64_representable:
  assumes "round64 x = Fin y"
  shows "\<exists>m e. y = of_int m * 2 powi e \<and> \<bar>m\<bar> \<le> 2 ^ 53 \<and> - 1074 \<le> e \<and> \<bar>y\<bar> < 2 ^ 1024"
proof (cases "x = 0")
  case True
  with assms have "y = of_int 0 * 2 powi 0" by (simp add: round64_def)
  then show ?thesis by fastforce
next
  case False
  define q where "q = max (ilog2 \<bar>x\<bar>) (- 1022) - 52"
  define m where "m = roundHalfEven (\<bar>x\<bar> / 2 powi q)"
  have pos: "(0::rat) < 2 powi q" by simp
  from assms False have y: "y = sgn x * (of_int m * 2 powi q)"
    and fin: "\<not> 2 ^ 1024 \<le> of_int m * (2::rat) powi q"
    by (simp_all add: round64_def Let_def q_def m_def split: if_splits)
  from False have a: "0 < \<bar>x\<bar>" by simp
  have "ilog2 \<bar>x\<bar> + 1 \<le> q + 53" by (simp add: q_def)
  then have "(2::rat) powi (ilog2 \<bar>x\<bar> + 1) \<le> 2 powi (q + 53)"
    by (intro power_int_increasing) simp_all
  with ilog2_bounds(2) [OF a] have "\<bar>x\<bar> < 2 powi (q + 53)" by simp
  also have "\<dots> = 2 ^ 53 * 2 powi q" by (simp add: power_int_add)
  finally have "\<bar>x\<bar> / 2 powi q < 2 ^ 53"
    using pos by (simp add: pos_divide_less_eq)
  then have "\<bar>x\<bar> / 2 powi q < of_int (2 ^ 53)" by simp
  moreover have "0 \<le> \<bar>x\<bar> / 2 powi q" by simp
  ultimately have m: "0 \<le> m \<and> m \<le> 2 ^ 53"
    unfolding m_def by (rule roundHalfEven_mono_bound [rotated])
  define s :: int where "s = (if 0 < x then 1 else - 1)"
  have "sgn x = of_int s" using False by (simp add: s_def sgn_if)
  then have 1: "y = of_int (s * m) * 2 powi q" by (simp add: y)
  have 2: "\<bar>s * m\<bar> \<le> 2 ^ 53" using m by (simp add: s_def abs_mult)
  have 3: "- 1074 \<le> q" by (simp add: q_def)
  have "\<bar>y\<bar> = of_int m * 2 powi q"
    using m False by (simp add: y abs_mult sgn_if)
  with fin have 4: "\<bar>y\<bar> < 2 ^ 1024" by simp
  from 1 2 3 4 show ?thesis by blast
qed

section \<open>The error of a chain of roundings\<close>

text \<open>
  In the normal range a rounding has a relative error of at most \<open>2^-53\<close>.  The scorer
  rounds four times on the way to the product; for tables of whole numbers the exact
  product is a multiple of \<open>1/5000\<close>, further from a half than the four errors together
  unless it is a half itself.
\<close>

lemma ilog2_lower:
  assumes "2 powi n \<le> a"
  shows "n \<le> ilog2 a"
proof -
  have "(0::rat) < 2 powi n" by simp
  with assms have a: "0 < a" by linarith
  from ilog2_bounds(2) [OF a] assms have "(2::rat) powi n < 2 powi (ilog2 a + 1)"
    by linarith
  moreover have "(2::rat) powi (ilog2 a + 1) \<le> 2 powi n" if "ilog2 a + 1 \<le> n"
    using that by (intro power_int_increasing) simp_all
  ultimately have "n < ilog2 a + 1"
    by fastforce
  then show ?thesis by simp
qed

lemma round64_relative_error:
  assumes lo: "2 powi (- 1022) \<le> x" and hi: "x < 2 ^ 1023"
  shows "\<exists>y. round64 x = Fin y \<and> \<bar>y - x\<bar> \<le> x / 2 ^ 53"
proof -
  have "(0::rat) < 2 powi (- 1022)" by simp
  with lo have x: "0 < x" by linarith
  define q where "q = max (ilog2 x) (- 1022) - 52"
  define m where "m = roundHalfEven (x / 2 powi q)"
  from lo have il: "- 1022 \<le> ilog2 x" by (rule ilog2_lower)
  then have q: "q = ilog2 x - 52" by (simp add: q_def)
  have pos: "(0::rat) < 2 powi q" by simp
  have b: "2 powi (ilog2 x) \<le> x" using x by (rule ilog2_bounds(1))
  have "x < 2 powi (ilog2 x + 1)" using x by (rule ilog2_bounds(2))
  also have "\<dots> = 2 ^ 53 * 2 powi q" by (simp add: q power_int_add power_int_diff)
  finally have "x / 2 powi q < of_int (2 ^ 53)"
    using pos by (simp add: pos_divide_less_eq)
  moreover have "0 \<le> x / 2 powi q" using x by simp
  ultimately have m: "0 \<le> m \<and> m \<le> 2 ^ 53"
    unfolding m_def by (rule roundHalfEven_mono_bound [rotated])
  then have "(of_int m :: rat) \<le> 2 ^ 53"
    by (metis of_int_le_iff of_int_numeral of_int_power)
  then have "of_int m * (2::rat) powi q \<le> 2 ^ 53 * 2 powi q"
    using pos by (simp only: mult_le_cancel_right_pos)
  also have "\<dots> = 2 * 2 powi (ilog2 x)" by (simp add: q power_int_diff)
  also have "\<dots> \<le> 2 * x" using b by simp
  also have "\<dots> < 2 ^ 1024" using hi by simp
  finally have fin: "\<not> 2 ^ 1024 \<le> of_int m * (2::rat) powi q" by simp
  have "round64 x = (if 2 ^ 1024 \<le> of_int m * (2::rat) powi q then PInf
      else Fin (of_int m * 2 powi q))"
    unfolding m_def q_def using x by (simp add: round64_def Let_def)
  with fin have r: "round64 x = Fin (of_int m * 2 powi q)"
    by (simp only: if_False)
  from round64_error [OF r] have "\<bar>of_int m * 2 powi q - x\<bar> \<le> 2 powi (ilog2 x - 53)"
    using il x by simp
  also have "\<dots> = 2 powi (ilog2 x) / 2 ^ 53" by (simp add: power_int_diff)
  also have "\<dots> \<le> x / 2 ^ 53" using b by (simp add: divide_right_mono)
  finally show ?thesis using r by blast
qed

lemma lo53_bounds: "0 \<le> lo53" "lo53 \<le> 1" and hi53_bounds: "0 \<le> hi53" "1 \<le> hi53"
  by (simp_all add: lo53_def hi53_def)

lemma near_refl: "near 0 x x"
  by (simp add: near_def)

lemma near_trans:
  assumes "near s x y" and "near t y z"
  shows "near (s + t) x z"
proof -
  have p: "0 \<le> lo53 ^ t" "0 \<le> hi53 ^ t"
    using lo53_bounds hi53_bounds by simp_all
  from assms(1) have "x * lo53 ^ s \<le> y" and "y \<le> x * hi53 ^ s"
    by (simp_all add: near_def)
  then have "x * lo53 ^ s * lo53 ^ t \<le> y * lo53 ^ t" and "y * hi53 ^ t \<le> x * hi53 ^ s * hi53 ^ t"
    using p by (simp_all only: mult_right_mono)
  moreover from assms(2) have "y * lo53 ^ t \<le> z" and "z \<le> y * hi53 ^ t"
    by (simp_all add: near_def)
  ultimately have "x * lo53 ^ s * lo53 ^ t \<le> z" and "z \<le> x * hi53 ^ s * hi53 ^ t"
    by linarith+
  then show ?thesis
    by (simp add: near_def power_add mult.assoc)
qed

lemma near_mult:
  assumes "near s x y" and "near t x' y'" and "0 \<le> x" and "0 \<le> x'"
  shows "near (s + t) (x * x') (y * y')"
proof -
  have l: "0 \<le> lo53 ^ s" "0 \<le> lo53 ^ t" and u: "0 \<le> hi53 ^ s" "0 \<le> hi53 ^ t"
    using lo53_bounds hi53_bounds by simp_all
  from assms(3,4) l have lo: "0 \<le> x * lo53 ^ s" "0 \<le> x' * lo53 ^ t"
    by simp_all
  from assms(1,2) have b: "x * lo53 ^ s \<le> y" "x' * lo53 ^ t \<le> y'"
      "y \<le> x * hi53 ^ s" "y' \<le> x' * hi53 ^ t"
    by (simp_all add: near_def)
  from lo b have y: "0 \<le> y" "0 \<le> y'"
    by linarith+
  have "(x * lo53 ^ s) * (x' * lo53 ^ t) \<le> y * y'"
    using b(1,2) lo y by (intro mult_mono) simp_all
  moreover have "y * y' \<le> (x * hi53 ^ s) * (x' * hi53 ^ t)"
    using b(3,4) y assms(3,4) u by (intro mult_mono) simp_all
  moreover have "(x * lo53 ^ s) * (x' * lo53 ^ t) = x * x' * lo53 ^ (s + t)"
    and "(x * hi53 ^ s) * (x' * hi53 ^ t) = x * x' * hi53 ^ (s + t)"
    by (simp_all add: power_add)
  ultimately show ?thesis
    by (simp only: near_def)
qed

lemma near_round64:
  assumes "2 powi (- 1022) \<le> x" and "x < 2 ^ 1023"
  shows "\<exists>y. round64 x = Fin y \<and> near 1 x y"
proof -
  from round64_relative_error [OF assms] obtain y
    where y: "round64 x = Fin y" and e: "\<bar>y - x\<bar> \<le> x / 2 ^ 53"
    by blast
  have "x * lo53 = x - x / 2 ^ 53" and "x * hi53 = x + x / 2 ^ 53"
    by (simp_all add: lo53_def hi53_def right_diff_distrib distrib_left)
  moreover from e have "y - x \<le> x / 2 ^ 53" and "x - y \<le> x / 2 ^ 53"
    by (simp_all only: abs_le_iff minus_diff_eq)
  ultimately have "near 1 x y"
    unfolding near_def power_one_right by linarith
  with y show ?thesis by blast
qed

lemma near_bounds:
  assumes "near t x y" and "t \<le> 4" and "0 \<le> x"
  shows "x / 2 \<le> y" and "y \<le> 2 * x" and "\<bar>y - x\<bar> \<le> x * (5 / 2 ^ 53)"
proof -
  have "lo53 ^ 4 \<le> lo53 ^ t"
    using assms(2) lo53_bounds by (intro power_decreasing) simp_all
  moreover have "1 - 5 / 2 ^ 53 \<le> lo53 ^ 4" by (simp add: power4_eq_xxxx lo53_def)
  ultimately have l: "1 - 5 / 2 ^ 53 \<le> lo53 ^ t" by linarith
  have "hi53 ^ t \<le> hi53 ^ 4"
    using assms(2) hi53_bounds by (intro power_increasing) simp_all
  moreover have "hi53 ^ 4 \<le> 1 + 5 / 2 ^ 53" by (simp add: power4_eq_xxxx hi53_def)
  ultimately have u: "hi53 ^ t \<le> 1 + 5 / 2 ^ 53" by linarith
  from l assms(3) have "x * (1 - 5 / 2 ^ 53) \<le> x * lo53 ^ t"
    by (rule mult_left_mono)
  with assms(1) have lo: "x * (1 - 5 / 2 ^ 53) \<le> y"
    by (simp only: near_def) linarith
  from u assms(3) have "x * hi53 ^ t \<le> x * (1 + 5 / 2 ^ 53)"
    by (rule mult_left_mono)
  with assms(1) have hi: "y \<le> x * (1 + 5 / 2 ^ 53)"
    by (simp only: near_def) linarith
  have e1: "x * (1 - 5 / 2 ^ 53) = x - x * (5 / 2 ^ 53)"
    and e2: "x * (1 + 5 / 2 ^ 53) = x + x * (5 / 2 ^ 53)"
    by (simp_all only: right_diff_distrib distrib_left mult_1_right)
  from lo hi show "\<bar>y - x\<bar> \<le> x * (5 / 2 ^ 53)"
    unfolding e1 e2 abs_le_iff by linarith
  have "x * (5 / 2 ^ 53) \<le> x * (1 / 2)"
    using assms(3) by (intro mult_left_mono) simp_all
  with lo hi show "x / 2 \<le> y" and "y \<le> 2 * x"
    unfolding e1 e2 by linarith+
qed

lemma double_range:
  fixes x :: rat
  assumes "1 / 2 ^ 20 \<le> x" and "x \<le> 2 ^ 60"
  shows "2 powi (- 1022) \<le> x" and "x < 2 ^ 1023"
proof -
  have "(2::rat) powi (- 1022) \<le> 2 powi (- 20)"
    by (intro power_int_increasing) simp_all
  also have "(2::rat) powi (- 20) = 1 / 2 ^ 20"
    by (simp only: power_int_minus power_int_numeral inverse_eq_divide)
  finally show "2 powi (- 1022) \<le> x"
    using assms(1) by (rule order_trans)
  have "(2::rat) ^ 60 < 2 ^ 1023"
    by (intro power_strict_increasing) simp_all
  with assms(2) show "x < 2 ^ 1023"
    by (rule le_less_trans)
qed

lemma floor_of_close:
  fixes f :: rat and n :: int
  assumes "n mod 5000 \<noteq> 2500" and "\<bar>f - of_int n / 5000\<bar> < 1 / 5000"
  shows "\<lfloor>f + 1 / 2\<rfloor> = \<lfloor>of_int n / 5000 + 1 / 2 :: rat\<rfloor>"
proof -
  define q where "q = n div 5000"
  define m where "m = n mod 5000"
  have n: "n = 5000 * q + m" by (simp add: q_def m_def)
  have m: "0 \<le> m" "m < 5000" "m \<noteq> 2500"
    using assms(1) by (simp_all add: m_def)
  have p: "of_int n / 5000 = (of_int q :: rat) + of_int m / 5000"
    by (simp add: n)
  from assms(2) have c: "f - of_int n / 5000 < 1 / 5000" "of_int n / 5000 - f < 1 / 5000"
    by (simp_all only: abs_less_iff minus_diff_eq)
  show ?thesis
  proof (cases "m < 2500")
    case True
    then have "m \<le> 2499" by simp
    then have "(of_int m :: rat) \<le> 2499" by (metis of_int_le_iff of_int_numeral)
    moreover have "(0::rat) \<le> of_int m" using m(1) by simp
    ultimately have "of_int q \<le> f + 1 / 2" "f + 1 / 2 < of_int q + 1"
      "of_int q \<le> of_int n / 5000 + 1 / (2::rat)" "of_int n / 5000 + 1 / (2::rat) < of_int q + 1"
      using c p by linarith+
    then show ?thesis by (simp add: floor_unique)
  next
    case False
    with m have "2501 \<le> m" "m \<le> 4999" by simp_all
    then have "(2501::rat) \<le> of_int m" "(of_int m :: rat) \<le> 4999"
      by (metis of_int_le_iff of_int_numeral)+
    then have "of_int q + 1 \<le> f + 1 / 2" "f + 1 / 2 < of_int q + 1 + 1"
      "of_int q + 1 \<le> of_int n / 5000 + 1 / (2::rat)"
      "of_int n / 5000 + 1 / (2::rat) < of_int q + 1 + 1"
      using c p by linarith+
    then have "\<lfloor>f + 1 / 2\<rfloor> = q + 1" "\<lfloor>of_int n / 5000 + 1 / 2 :: rat\<rfloor> = q + 1"
      by (simp_all add: floor_unique)
    then show ?thesis by simp
  qed
qed

lemma rounded_product_exact:
  fixes a c k :: nat
  assumes a: "0 < a" and c: "0 < c" and k: "k \<in> {7, 8, 11, 12}"
    and ac: "a * c \<le> 10 ^ 13" and tie: "int (a * c * k) mod 5000 \<noteq> 2500"
  shows "Math_round (num_mult (num_mult (Fin (of_nat a)) (num_div (Fin (of_nat c)) (Fin 500)))
            (round64 (of_nat k / 10)))
         = Fin (of_int \<lfloor>of_int (int (a * c * k)) / 5000 + 1 / 2 :: rat\<rfloor>)"
proof -
  define A :: rat where "A = of_nat a"
  define C :: rat where "C = of_nat c"
  define K :: rat where "K = of_nat k / 10"
  define P :: rat where "P = A * (C / 500)"
  have A: "1 \<le> A" and C: "1 \<le> C"
    using a c by (simp_all add: A_def C_def)
  have "A * C = of_nat (a * c)" by (simp add: A_def C_def)
  also have "\<dots> \<le> of_nat (10 ^ 13)" using ac by (simp only: of_nat_le_iff)
  finally have AC: "A * C \<le> 10 ^ 13" by simp
  have "1 * C \<le> A * C" using A C by (intro mult_right_mono) simp_all
  with AC have C': "C \<le> 10 ^ 13" by simp
  have K: "7 / 10 \<le> K" "K \<le> 12 / 10"
    using k by (auto simp add: K_def)
  have "1 * 1 \<le> A * C" using A C by (intro mult_mono) simp_all
  then have P: "1 / 500 \<le> P" "P \<le> 2 * 10 ^ 10"
    using AC by (simp_all add: P_def)
  \<comment> \<open>the category multiplier\<close>
  have "1 / 2 ^ 20 \<le> C / 500" "C / 500 \<le> 2 ^ 60"
    using C C' by simp_all
  from near_round64 [OF double_range [OF this]] obtain d
    where d: "round64 (C / 500) = Fin d" and nd: "near 1 (C / 500) d"
    by blast
  \<comment> \<open>the first product\<close>
  from near_mult [OF near_refl nd] A C have nAd: "near 1 P (A * d)"
    by (simp add: P_def)
  from near_bounds(1,2) [OF nAd] P have "1 / 2 ^ 20 \<le> A * d" "A * d \<le> 2 ^ 60"
    by simp_all
  from near_round64 [OF double_range [OF this]] obtain e
    where e: "round64 (A * d) = Fin e" and ne': "near 1 (A * d) e"
    by blast
  from near_trans [OF nAd ne'] have ne: "near 2 P e"
    by (simp add: numeral_2_eq_2)
  \<comment> \<open>the hour multiplier\<close>
  have "1 / 2 ^ 20 \<le> K" "K \<le> 2 ^ 60"
    using K by simp_all
  from near_round64 [OF double_range [OF this]] obtain m
    where m: "round64 K = Fin m" and nm: "near 1 K m"
    by blast
  \<comment> \<open>the second product\<close>
  from near_mult [OF ne nm] P K have nem: "near 3 (P * K) (e * m)"
    by (simp add: numeral_3_eq_3 numeral_2_eq_2)
  have "1 / 500 * (7 / 10) \<le> P * K" using P K by (intro mult_mono) simp_all
  moreover have "P * K \<le> 2 * 10 ^ 10 * (12 / 10)" using P K by (intro mult_mono) simp_all
  ultimately have PK: "7 / 5000 \<le> P * K" "P * K \<le> 24 * 10 ^ 9"
    by simp_all
  from near_bounds(1,2) [OF nem] PK have "1 / 2 ^ 20 \<le> e * m" "e * m \<le> 2 ^ 60"
    by simp_all
  from near_round64 [OF double_range [OF this]] obtain f
    where f: "round64 (e * m) = Fin f" and nf': "near 1 (e * m) f"
    by blast
  from near_trans [OF nem nf'] have "near (3 + 1) (P * K) f" .
  then have "near 4 (P * K) f"
    by simp
  from near_bounds(3) [OF this] PK have "\<bar>f - P * K\<bar> \<le> P * K * (5 / 2 ^ 53)"
    by simp
  also have "\<dots> \<le> 24 * 10 ^ 9 * (5 / 2 ^ 53)"
    using PK by (intro mult_right_mono) simp_all
  also have "\<dots> < 1 / 5000" by simp
  finally have close: "\<bar>f - P * K\<bar> < 1 / 5000" .
  have "P * K = of_int (int (a * c * k)) / 5000"
    by (simp add: P_def K_def A_def C_def)
  with close have "\<bar>f - of_int (int (a * c * k)) / 5000\<bar> < 1 / 5000"
    by simp
  from floor_of_close [OF tie this]
  have "Math_round (Fin f) = Fin (of_int \<lfloor>of_int (int (a * c * k)) / 5000 + 1 / 2 :: rat\<rfloor>)"
    by simp
  moreover have "num_div (Fin C) (Fin 500) = Fin d" using d by simp
  moreover have "num_mult (Fin A) (Fin d) = Fin e" using e by simp
  moreover have "num_mult (Fin e) (Fin m) = Fin f" using f by simp
  ultimately show ?thesis
    using m by (simp only: A_def [symmetric] C_def [symmetric] K_def [symmetric])
qed

section \<open>Evaluation and basic facts\<close>

lemma bitlen_numeral_step:
  "bitlen (numeral n) = bitlen (numeral n div 2) + 1" "bitlen 1 = 1"
  by (subst compute_bitlen, simp)+

lemma floor_rat_numeral: "\<lfloor>numeral a / numeral b :: rat\<rfloor> = numeral a div numeral b"
  by (metis floor_divide_of_int_eq of_int_numeral)

lemma ceiling_rat_numeral: "\<lceil>numeral a / numeral b :: rat\<rceil> = - (- numeral a div numeral b)"
  by (metis ceiling_def floor_divide_of_int_eq minus_divide_left of_int_minus of_int_numeral)

lemmas round64_eval = round64_def ilog2_def roundHalfEven_def Let_def bitlen_numeral_step
  floor_rat_numeral ceiling_rat_numeral power_int_minus

lemmas parseInt_eval = parseInt_def isWhiteSpace_def digitValue_def

lemmas scorer_eval = generateRecommendation_def get_prop_def bind_err_def hourMultiplier_def
  js_ge_def Object_prototype_names_def

text \<open>
  The rounding agrees with the doubles every JavaScript engine prints: \<open>0.1\<close> is
  \<open>0x3FB999999999999A\<close>, and \<open>0.1 + 0.2\<close> is \<open>0.30000000000000004\<close>, not \<open>0.3\<close>.
\<close>

lemma round64_tenth: "round64 (1 / 10) = Fin (7205759403792794 / 2 ^ 56)"
  by (simp add: round64_eval)

lemma tenth_plus_fifth:
  "num_add (round64 (1 / 10)) (round64 (2 / 10)) = Fin (5404319552844596 / 2 ^ 54)"
  "round64 (3 / 10) = Fin (5404319552844595 / 2 ^ 54)"
  by (simp_all add: round64_eval)

text \<open>
  What \<open>parseInt\<close> reads: a prefix of digits after white space and a sign, whole even
  when the string goes on; a missing hour is read from the string \<open>undefined\<close>.
\<close>

lemma parseInt_examples:
  "parseInt ''13'' = Fin 13"
  "parseInt '' 7'' = Fin 7"
  "parseInt ''+12'' = Fin 12"
  "parseInt ''-3'' = Fin (- 3)"
  "parseInt ''10.9'' = Fin 10"
  "parseInt ''6pm'' = Fin 6"
  "parseInt ''0x10'' = Fin 16"
  "parseInt ''abc'' = NaN"
  "parseInt [] = NaN"
  "parseInt (ToString SUndefined) = NaN"
  by (simp_all add: parseInt_eval round64_eval)

text \<open>The four decimal literals of the scorer, as the doubles they denote.\<close>

lemma multiplier_literals:
  "round64 (8 / 10) = Fin (3602879701896397 / 2 ^ 52)"
  "round64 (12 / 10) = Fin (5404319552844595 / 2 ^ 52)"
  "round64 (11 / 10) = Fin (4953959590107546 / 2 ^ 52)"
  "round64 (7 / 10) = Fin (3152519739159347 / 2 ^ 52)"
  by (simp_all add: round64_eval)

lemma round64_small: "round64 80 = Fin 80" "round64 90 = Fin 90" "round64 100 = Fin 100"
  by (simp_all add: round64_eval)

lemma bind_err_simps [simp]: "bind_err (Inl e) f = Inl e" "bind_err (Inr v) f = f v"
  by (simp_all add: bind_err_def)

lemma num_mult_NaN_right [simp]: "num_mult a NaN = NaN"
  by (cases a) simp_all

text \<open>What the call returns when the user id is an own key of the profile table.\<close>

lemma generateRecommendation_known:
  assumes "userProfiles (appData g) (ToString (userId params)) = Some p"
  shows "generateRecommendation params g =
    (Inr \<lparr>amount = Own (Math_max (Math_round (num_mult (num_mult (avg_amount p)
               (num_div (ToNumber (get_prop (categoryAverages (appData g))
                  (ToString (category params)))) (Fin 500)))
               (hourMultiplier (parseInt (ToString (hour params)))))) (Fin 50)),
           confidence = Math_min
             (if js_gt (transactions p) (Fin 10)
              then num_add (if SStr (preferred_category p) = category params
                            then num_add (Fin 70) (Fin 20) else Fin 70) (Fin 10)
              else (if SStr (preferred_category p) = category params
                    then num_add (Fin 70) (Fin 20) else Fin 70)) (Fin 95),
           cluster = SStr (cluster_name p),
           reasoning = ''Based on '' @ cluster_name p @ '' spending pattern, ''
             @ ToString (category params) @ '' preferences, and transaction time analysis''\<rparr>, g)"
  using assms by (simp add: generateRecommendation_def get_prop_def bind_err_def Let_def)

section \<open>The amount for a known user\<close>

text \<open>
  Claim C1.  When the request's user id is a key of the profile table and its category is a
  key of the category averages, the call returns, without throwing, the amount
  \<open>Math.max(Math.round(avg_amount * (categoryAverages[category] / 500) * hourMultiplier), 50)\<close>,
  every operation being the one on doubles, and the hour multiplier a function of the
  request's hour alone.
\<close>

theorem known_user_amount:
  assumes "userProfiles (appData g) (ToString (userId params)) = Some profile"
    and "categoryAverages (appData g) (ToString (category params)) = Some avg"
  shows "\<exists>r. fst (generateRecommendation params g) = Inr r \<and>
    amount r = Own (Math_max (Math_round (num_mult (num_mult (avg_amount profile)
       (num_div avg (Fin 500))) (hourMultiplier (parseInt (ToString (hour params)))))) (Fin 50))"
  using assms by (simp add: generateRecommendation_known get_prop_def)

text \<open>
  On the tables of the source: \<open>USER_0001\<close> (average 1017) asks for Shopping (842) at
  hour 13, and gets \<open>round(1017 * 1.684 * 1.2) = 2055\<close>.
\<close>

theorem known_user_amount_witness:
  "userProfiles (appData (globals_loaded :: unit globals)) ''USER_0001''
     = Some \<lparr>avg_amount = Fin 1017, cluster = Fin 1, cluster_name = ''High-Value Users'',
             transactions = Fin 8, preferred_category = ''Entertainment''\<rparr>
   \<and> categoryAverages (appData (globals_loaded :: unit globals)) ''Shopping'' = Some (Fin 842)
   \<and> (\<exists>r. fst (generateRecommendation
              \<lparr>userId = SStr ''USER_0001'', category = SStr ''Shopping'',
               location = SStr ''Mumbai'', paymentMethod = SStr ''UPI'', hour = SStr ''13''\<rparr>
              (globals_loaded :: unit globals)) = Inr r
          \<and> amount r = Own (Fin 2055))"
proof -
  let ?g = "globals_loaded :: unit globals"
  let ?p = "\<lparr>userId = SStr ''USER_0001'', category = SStr ''Shopping'',
             location = SStr ''Mumbai'', paymentMethod = SStr ''UPI'', hour = SStr ''13''\<rparr>"
  let ?u = "\<lparr>avg_amount = Fin 1017, cluster = Fin 1, cluster_name = ''High-Value Users'',
             transactions = Fin 8, preferred_category = ''Entertainment''\<rparr>"
  have u: "userProfiles (appData ?g) (ToString (userId ?p)) = Some ?u"
    by (simp add: globals_loaded_def appData_literal_def)
  have c: "categoryAverages (appData ?g) (ToString (category ?p)) = Some (Fin 842)"
    by (simp add: globals_loaded_def appData_literal_def)
  have v: "Math_max (Math_round (num_mult (num_mult (Fin 1017) (num_div (Fin 842) (Fin 500)))
             (hourMultiplier (parseInt ''13'')))) (Fin 50) = Fin 2055"
    by (simp add: parseInt_eval hourMultiplier_def js_ge_def round64_eval)
  from known_user_amount [OF u c] v u c show ?thesis
    by simp
qed

section \<open>The amount in exact arithmetic\<close>

text \<open>
  For table entries that are whole numbers with a product of at most \<open>10^13\<close>, the amount
  computed in doubles is the amount of the formula in exact arithmetic, unless the exact
  product ends in a half.
\<close>

lemma hourMultiplier_tenths: "hourMultiplier h = round64 (of_nat (hour_tenths h) / 10)"
  by (simp add: hourMultiplier_def hour_tenths_def)

lemma hour_tenths_cases: "hour_tenths h \<in> {7, 8, 11, 12}"
  by (simp add: hour_tenths_def)

lemma Math_max_Fin: "Math_max (Fin x) (Fin y) = Fin (max x y)"
  by (simp add: max_def)

lemma exact_amount_for_known_user:
  assumes "userProfiles (appData g) (ToString (userId params)) = Some profile"
    and "avg_amount profile = Fin (of_nat a)"
    and "categoryAverages (appData g) (ToString (category params)) = Some (Fin (of_nat c))"
    and "0 < a" and "0 < c" and "a * c \<le> 10 ^ 13"
    and "int (a * c * hour_tenths (parseInt (ToString (hour params)))) mod 5000 \<noteq> 2500"
  shows "\<exists>r. fst (generateRecommendation params g) = Inr r \<and>
    amount r = Own (Fin (of_int (exact_amount a c (parseInt (ToString (hour params))))))"
proof -
  let ?h = "parseInt (ToString (hour params))"
  let ?k = "hour_tenths ?h"
  have e: "(of_int (int (a * c * ?k)) :: rat) / 5000
      = of_nat a * (of_nat c / 500) * (of_nat ?k / 10)"
    by simp
  from rounded_product_exact [OF assms(4,5) hour_tenths_cases assms(6,7)]
  have "Math_max (Math_round (num_mult (num_mult (Fin (of_nat a))
      (num_div (Fin (of_nat c)) (Fin 500))) (hourMultiplier ?h))) (Fin 50)
    = Fin (of_int (exact_amount a c ?h))"
    unfolding hourMultiplier_tenths e exact_amount_def Math_max_Fin by simp
  with assms(1,2,3) show ?thesis
    by (simp add: generateRecommendation_known get_prop_def)
qed

text \<open>No product of the tables of the source ends in a half, so there the two agree.\<close>

lemma literal_profile_values:
  assumes "userProfiles appData_literal key = Some p"
  shows "\<exists>a \<in> {1017, 1004, 850, 1360, 713 :: nat}. avg_amount p = Fin (of_nat a)"
  using assms by (auto simp add: appData_literal_def split: if_splits)

lemma literal_average_values:
  assumes "categoryAverages appData_literal key = Some n"
  shows "\<exists>c \<in> {255, 118, 842, 674, 398, 823, 1987, 354, 512, 1634 :: nat}. n = Fin (of_nat c)"
  using assms by (auto simp add: appData_literal_def split: if_splits)

lemma literal_products:
  "\<forall>a \<in> set [1017, 1004, 850, 1360, 713 :: nat].
   \<forall>c \<in> set [255, 118, 842, 674, 398, 823, 1987, 354, 512, 1634 :: nat].
   \<forall>k \<in> set [7, 8, 11, 12 :: nat].
     int (a * c * k) mod 5000 \<noteq> 2500 \<and> a * c \<le> 10 ^ 13 \<and> 0 < a \<and> 0 < c"
  by simp

lemma literal_no_ties:
  assumes "a \<in> {1017, 1004, 850, 1360, 713 :: nat}"
    and "c \<in> {255, 118, 842, 674, 398, 823, 1987, 354, 512, 1634 :: nat}"
    and "k \<in> {7, 8, 11, 12 :: nat}"
  shows "int (a * c * k) mod 5000 \<noteq> 2500" and "a * c \<le> 10 ^ 13" and "0 < a" and "0 < c"
proof -
  from assms have "a \<in> set [1017, 1004, 850, 1360, 713]"
    and "c \<in> set [255, 118, 842, 674, 398, 823, 1987, 354, 512, 1634]"
    and "k \<in> set [7, 8, 11, 12]"
    by simp_all
  with literal_products
  have "int (a * c * k) mod 5000 \<noteq> 2500 \<and> a * c \<le> 10 ^ 13 \<and> 0 < a \<and> 0 < c"
    by blast
  then show "int (a * c * k) mod 5000 \<noteq> 2500" and "a * c \<le> 10 ^ 13" and "0 < a" and "0 < c"
    by simp_all
qed

lemma literal_tables_amount_exact:
  assumes "appData g = appData_literal"
    and "userProfiles (appData g) (ToString (userId params)) = Some profile"
    and "categoryAverages (appData g) (ToString (category params)) = Some avg"
  shows "\<exists>r a c. fst (generateRecommendation params g) = Inr r \<and>
    avg_amount profile = Fin (of_nat a) \<and> avg = Fin (of_nat c) \<and>
    amount r = Own (Fin (of_int (exact_amount a c (parseInt (ToString (hour params))))))"
proof -
  from assms(1,2) literal_profile_values obtain a
    where a: "a \<in> {1017, 1004, 850, 1360, 713 :: nat}" "avg_amount profile = Fin (of_nat a)"
    by metis
  from assms(1,3) literal_average_values obtain c
    where c: "c \<in> {255, 118, 842, 674, 398, 823, 1987, 354, 512, 1634 :: nat}" "avg = Fin (of_nat c)"
    by metis
  note t = literal_no_ties [OF a(1) c(1) hour_tenths_cases]
  from exact_amount_for_known_user [OF assms(2) a(2) assms(3) [unfolded c(2)] t(3,4,2,1)] a(2) c(2)
  show ?thesis by blast
qed

text \<open>
  At a half they can differ: for the average amount 85, the category average 500 and the
  multiplier \<open>0.7\<close> the exact product is \<open>59.5\<close>, the product in doubles is below it.
\<close>

lemma tie_example:
  "Math_round (num_mult (num_mult (Fin 85) (num_div (Fin 500) (Fin 500))) (round64 (7 / 10)))
     = Fin 59"
  "\<lfloor>85 * (500 / 500) * (7 / 10) + 1 / 2 :: rat\<rfloor> = 60"
  "int (85 * 500 * 7) mod 5000 = 2500"
  by (simp_all add: round64_eval)

section \<open>The confidence for a known user\<close>

text \<open>
  Claim C2.  When the request's user id is a key of the profile table, the call returns the
  confidence 70, plus 20 when the profile's preferred category is the request's category
  (the same string), plus 10 when the profile's transaction count is greater than 10, and
  at most 95; so it is 70, 80, 90 or 95.
\<close>

theorem known_user_confidence:
  assumes "userProfiles (appData g) (ToString (userId params)) = Some profile"
  shows "\<exists>r. fst (generateRecommendation params g) = Inr r \<and>
    confidence r = Fin (min (70 + (if SStr (preferred_category profile) = category params then 20 else 0)
                      + (if js_gt (transactions profile) (Fin 10) then 10 else 0)) 95) \<and>
    confidence r \<in> {Fin 70, Fin 80, Fin 90, Fin 95}"
  using assms by (simp add: generateRecommendation_known round64_small)

text \<open>
  \<open>USER_0655\<close> has 12 transactions and prefers Food \<open>&\<close> Dining: asking for that category
  gives \<open>min(70 + 20 + 10, 95) = 95\<close>.
\<close>

theorem known_user_confidence_witness:
  "userProfiles (appData (globals_loaded :: unit globals)) ''USER_0655''
     = Some \<lparr>avg_amount = Fin 1360, cluster = Fin 3, cluster_name = ''Active Users'',
             transactions = Fin 12, preferred_category = ''Food & Dining''\<rparr>
   \<and> (\<exists>r. fst (generateRecommendation
              \<lparr>userId = SStr ''USER_0655'', category = SStr ''Food & Dining'',
               location = SStr ''Delhi'', paymentMethod = SStr ''UPI'', hour = SStr ''20''\<rparr>
              (globals_loaded :: unit globals)) = Inr r
          \<and> confidence r = Fin 95)"
proof -
  let ?g = "globals_loaded :: unit globals"
  let ?p = "\<lparr>userId = SStr ''USER_0655'', category = SStr ''Food & Dining'',
             location = SStr ''Delhi'', paymentMethod = SStr ''UPI'', hour = SStr ''20''\<rparr>"
  let ?u = "\<lparr>avg_amount = Fin 1360, cluster = Fin 3, cluster_name = ''Active Users'',
             transactions = Fin 12, preferred_category = ''Food & Dining''\<rparr>"
  have u: "userProfiles (appData ?g) (ToString (userId ?p)) = Some ?u"
    by (simp add: globals_loaded_def appData_literal_def)
  from known_user_confidence [OF u] obtain r
    where r: "fst (generateRecommendation ?p ?g) = Inr r"
      and c: "confidence r = Fin (min (70 + (if SStr (preferred_category ?u) = category ?p then 20 else 0)
                + (if js_gt (transactions ?u) (Fin 10) then 10 else 0)) 95)"
    by blast
  from c have "confidence r = Fin 95"
    by simp
  with r u show ?thesis
    by simp
qed

section \<open>A known user and a category without an average\<close>

text \<open>
  Claim C6.  When the user id is a key of the profile table and the category is no key of
  the category averages, the call throws nothing and returns the amount NaN: the lookup
  gives \<open>undefined\<close> (or an inherited function), its conversion to a number is NaN, and the
  division, both products, \<open>Math.round\<close> and \<open>Math.max\<close> all pass NaN on.
\<close>

theorem missing_category_gives_NaN:
  assumes "userProfiles (appData g) (ToString (userId params)) = Some profile"
    and "categoryAverages (appData g) (ToString (category params)) = None"
  shows "\<exists>r. fst (generateRecommendation params g) = Inr r \<and> amount r = Own NaN"
  using assms by (simp add: generateRecommendation_known get_prop_def)

text \<open>\<open>USER_0003\<close> asks for the category Travel, which the table does not hold.\<close>

theorem missing_category_gives_NaN_witness:
  "userProfiles (appData (globals_loaded :: unit globals)) ''USER_0003''
     = Some \<lparr>avg_amount = Fin 850, cluster = Fin 0, cluster_name = ''Conservative Spenders'',
             transactions = Fin 6, preferred_category = ''Groceries''\<rparr>
   \<and> categoryAverages (appData (globals_loaded :: unit globals)) ''Travel'' = None
   \<and> (\<exists>r. fst (generateRecommendation
              \<lparr>userId = SStr ''USER_0003'', category = SStr ''Travel'',
               location = SStr ''Pune'', paymentMethod = SStr ''Card'', hour = SStr ''9''\<rparr>
              (globals_loaded :: unit globals)) = Inr r
          \<and> amount r = Own NaN)"
proof -
  let ?g = "globals_loaded :: unit globals"
  let ?p = "\<lparr>userId = SStr ''USER_0003'', category = SStr ''Travel'',
               location = SStr ''Pune'', paymentMethod = SStr ''Card'', hour = SStr ''9''\<rparr>"
  let ?u = "\<lparr>avg_amount = Fin 850, cluster = Fin 0, cluster_name = ''Conservative Spenders'',
             transactions = Fin 6, preferred_category = ''Groceries''\<rparr>"
  have u: "userProfiles (appData ?g) (ToString (userId ?p)) = Some ?u"
    by (simp add: globals_loaded_def appData_literal_def)
  have c: "categoryAverages (appData ?g) (ToString (category ?p)) = None"
    by (simp add: globals_loaded_def appData_literal_def)
  from missing_category_gives_NaN [OF u c] u c show ?thesis
    by simp
qed

section \<open>The hour multiplier\<close>

text \<open>
  Claim C4.  The hour the scorer uses is the number \<open>parseInt\<close> reads from the request's
  hour.  The multiplier is \<open>0.8\<close> when that number lies in \<open>[6, 10]\<close>, \<open>1.2\<close> in \<open>[11, 14]\<close>,
  \<open>1.1\<close> in \<open>[18, 22]\<close>, all bounds included, and \<open>0.7\<close> for every other number, also below 0
  and above 23, and for NaN and the infinities.
\<close>

theorem hour_multiplier_bands:
  "(6 \<le> x \<and> x \<le> 10 \<longrightarrow> hourMultiplier (Fin x) = round64 (8 / 10)) \<and>
   (11 \<le> x \<and> x \<le> 14 \<longrightarrow> hourMultiplier (Fin x) = round64 (12 / 10)) \<and>
   (18 \<le> x \<and> x \<le> 22 \<longrightarrow> hourMultiplier (Fin x) = round64 (11 / 10)) \<and>
   (x < 6 \<or> (10 < x \<and> x < 11) \<or> (14 < x \<and> x < 18) \<or> 22 < x
      \<longrightarrow> hourMultiplier (Fin x) = round64 (7 / 10)) \<and>
   hourMultiplier NaN = round64 (7 / 10) \<and>
   hourMultiplier PInf = round64 (7 / 10) \<and>
   hourMultiplier NInf = round64 (7 / 10)"
  by (auto simp add: hourMultiplier_def js_ge_def)

text \<open>One hour in each band, the gaps, both ends of the day, and hours that are no hour.\<close>

theorem hour_multiplier_bands_witness:
  "parseInt ''8'' = Fin 8 \<and> hourMultiplier (parseInt ''8'') = round64 (8 / 10) \<and>
   parseInt ''13'' = Fin 13 \<and> hourMultiplier (parseInt ''13'') = round64 (12 / 10) \<and>
   parseInt ''20'' = Fin 20 \<and> hourMultiplier (parseInt ''20'') = round64 (11 / 10) \<and>
   parseInt ''16'' = Fin 16 \<and> hourMultiplier (parseInt ''16'') = round64 (7 / 10) \<and>
   parseInt ''2'' = Fin 2 \<and> hourMultiplier (parseInt ''2'') = round64 (7 / 10) \<and>
   parseInt ''23'' = Fin 23 \<and> hourMultiplier (parseInt ''23'') = round64 (7 / 10) \<and>
   parseInt ''-1'' = Fin (- 1) \<and> hourMultiplier (parseInt ''-1'') = round64 (7 / 10) \<and>
   parseInt ''24'' = Fin 24 \<and> hourMultiplier (parseInt ''24'') = round64 (7 / 10) \<and>
   parseInt ''noon'' = NaN \<and> hourMultiplier (parseInt ''noon'') = round64 (7 / 10)"
proof -
  have p: "parseInt ''8'' = Fin 8" "parseInt ''13'' = Fin 13" "parseInt ''20'' = Fin 20"
    "parseInt ''16'' = Fin 16" "parseInt ''2'' = Fin 2" "parseInt ''23'' = Fin 23"
    "parseInt ''-1'' = Fin (- 1)" "parseInt ''24'' = Fin 24" "parseInt ''noon'' = NaN"
    by (simp_all add: parseInt_eval round64_eval)
  from hour_multiplier_bands [of 8] hour_multiplier_bands [of 13] hour_multiplier_bands [of 20]
    hour_multiplier_bands [of 16] hour_multiplier_bands [of 2] hour_multiplier_bands [of 23]
    hour_multiplier_bands [of "- 1"] hour_multiplier_bands [of 24]
  show ?thesis
    unfolding p by simp
qed


text \<open>Every hour of the day, as the string the form hands over.\<close>

lemma hours_of_the_day:
  "hourMultiplier (parseInt ''0'') = round64 (7 / 10)"
  "hourMultiplier (parseInt ''1'') = round64 (7 / 10)"
  "hourMultiplier (parseInt ''2'') = round64 (7 / 10)"
  "hourMultiplier (parseInt ''3'') = round64 (7 / 10)"
  "hourMultiplier (parseInt ''4'') = round64 (7 / 10)"
  "hourMultiplier (parseInt ''5'') = round64 (7 / 10)"
  "hourMultiplier (parseInt ''6'') = round64 (8 / 10)"
  "hourMultiplier (parseInt ''7'') = round64 (8 / 10)"
  "hourMultiplier (parseInt ''8'') = round64 (8 / 10)"
  "hourMultiplier (parseInt ''9'') = round64 (8 / 10)"
  "hourMultiplier (parseInt ''10'') = round64 (8 / 10)"
  "hourMultiplier (parseInt ''11'') = round64 (12 / 10)"
  "hourMultiplier (parseInt ''12'') = round64 (12 / 10)"
  "hourMultiplier (parseInt ''13'') = round64 (12 / 10)"
  "hourMultiplier (parseInt ''14'') = round64 (12 / 10)"
  "hourMultiplier (parseInt ''15'') = round64 (7 / 10)"
  "hourMultiplier (parseInt ''16'') = round64 (7 / 10)"
  "hourMultiplier (parseInt ''17'') = round64 (7 / 10)"
  "hourMultiplier (parseInt ''18'') = round64 (11 / 10)"
  "hourMultiplier (parseInt ''19'') = round64 (11 / 10)"
  "hourMultiplier (parseInt ''20'') = round64 (11 / 10)"
  "hourMultiplier (parseInt ''21'') = round64 (11 / 10)"
  "hourMultiplier (parseInt ''22'') = round64 (11 / 10)"
  "hourMultiplier (parseInt ''23'') = round64 (7 / 10)"
  by (simp_all add: parseInt_eval round64_eval hourMultiplier_def js_ge_def)

section \<open>The minimum amount\<close>

lemma roundHalfEven_nonneg: "0 \<le> r \<Longrightarrow> 0 \<le> roundHalfEven r"
  by (auto simp add: roundHalfEven_def Let_def)

lemma round64_nonneg: "0 \<le> x \<Longrightarrow> nonneg_number (round64 x)"
  by (auto simp add: round64_def Let_def roundHalfEven_nonneg)

lemma num_div_nonneg:
  "nonneg_number (Fin c) \<Longrightarrow> nonneg_number (num_div (Fin c) (Fin 500))"
  by (simp add: round64_nonneg)

lemma num_mult_nonneg:
  assumes "positive_number a" "nonneg_number b"
  shows "nonneg_number (num_mult a b)"
  using assms by (cases a; cases b) (simp_all add: round64_nonneg)

lemma num_mult_nonneg':
  assumes "nonneg_number a" "positive_number b"
  shows "nonneg_number (num_mult a b)"
  using assms by (cases a; cases b) (simp_all add: round64_nonneg)

lemma hourMultiplier_positive: "positive_number (hourMultiplier h)"
  unfolding hourMultiplier_def multiplier_literals by simp

lemma Math_round_nonneg: "nonneg_number n \<Longrightarrow> nonneg_number (Math_round n)"
  by (cases n) simp_all

lemma Math_max_ge: "nonneg_number n \<Longrightarrow> js_ge (Math_max n (Fin 50)) (Fin 50)"
  by (cases n) (simp_all add: js_ge_def)

lemma literal_profiles_positive:
  "userProfiles appData_literal k = Some p \<Longrightarrow> positive_number (avg_amount p)"
  by (auto simp add: appData_literal_def split: if_splits)

lemma literal_averages_positive:
  "categoryAverages appData_literal k = Some a \<Longrightarrow> positive_number a"
  by (auto simp add: appData_literal_def split: if_splits)

lemma clamped_amount_at_least_50:
  assumes "positive_number a" and "positive_number avg"
  shows "js_ge (Math_max (Math_round (num_mult (num_mult a (num_div avg (Fin 500)))
           (hourMultiplier h))) (Fin 50)) (Fin 50)"
proof -
  from assms(2) obtain c where "avg = Fin c" "0 < c"
    by (cases avg) simp_all
  then have "nonneg_number (num_div avg (Fin 500))"
    by (simp add: round64_nonneg)
  with assms(1) have "nonneg_number (num_mult a (num_div avg (Fin 500)))"
    by (rule num_mult_nonneg)
  then have "nonneg_number (num_mult (num_mult a (num_div avg (Fin 500))) (hourMultiplier h))"
    using hourMultiplier_positive by (rule num_mult_nonneg')
  then show ?thesis
    by (intro Math_max_ge Math_round_nonneg)
qed

text \<open>
  Claim C7.  When the user id is a key of the profile table and the category a key of the
  category averages, both holding positive numbers as the data model has it, the returned
  amount is a number that is at least 50.
\<close>

theorem minimum_amount_for_known_user:
  assumes "userProfiles (appData g) (ToString (userId params)) = Some profile"
    and "categoryAverages (appData g) (ToString (category params)) = Some avg"
    and "positive_number (avg_amount profile)" and "positive_number avg"
  shows "\<exists>r n. fst (generateRecommendation params g) = Inr r \<and> amount r = Own n \<and>
           js_ge n (Fin 50)"
  using assms clamped_amount_at_least_50 [OF assms(3,4)]
  by (simp add: generateRecommendation_known get_prop_def)

text \<open>\<open>USER_0755\<close> asks for Transportation at hour 3, the smallest product of the tables.\<close>

theorem minimum_amount_for_known_user_witness:
  "userProfiles (appData (globals_loaded :: unit globals)) ''USER_0755''
     = Some \<lparr>avg_amount = Fin 713, cluster = Fin 2,
             cluster_name = ''Frequent Small Transactions'', transactions = Fin 15,
             preferred_category = ''Transportation''\<rparr>
   \<and> categoryAverages (appData (globals_loaded :: unit globals)) ''Transportation''
     = Some (Fin 118)
   \<and> positive_number (Fin 713) \<and> positive_number (Fin 118)
   \<and> (\<exists>r n. fst (generateRecommendation
              \<lparr>userId = SStr ''USER_0755'', category = SStr ''Transportation'',
               location = SStr ''Chennai'', paymentMethod = SStr ''Wallet'', hour = SStr ''3''\<rparr>
              (globals_loaded :: unit globals)) = Inr r
          \<and> amount r = Own n \<and> js_ge n (Fin 50))"
proof -
  let ?g = "globals_loaded :: unit globals"
  let ?p = "\<lparr>userId = SStr ''USER_0755'', category = SStr ''Transportation'',
             location = SStr ''Chennai'', paymentMethod = SStr ''Wallet'', hour = SStr ''3''\<rparr>"
  let ?u = "\<lparr>avg_amount = Fin 713, cluster = Fin 2,
             cluster_name = ''Frequent Small Transactions'', transactions = Fin 15,
             preferred_category = ''Transportation''\<rparr>"
  have u: "userProfiles (appData ?g) (ToString (userId ?p)) = Some ?u"
    by (simp add: globals_loaded_def appData_literal_def)
  have c: "categoryAverages (appData ?g) (ToString (category ?p)) = Some (Fin 118)"
    by (simp add: globals_loaded_def appData_literal_def)
  have a: "positive_number (avg_amount ?u)" and b: "positive_number (Fin 118)"
    by simp_all
  from minimum_amount_for_known_user [OF u c a b] u c show ?thesis
    by simp
qed

text \<open>The tables of the source hold positive numbers only, so there the bound needs no more.\<close>

lemma literal_tables_amount_at_least_50:
  assumes "appData g = appData_literal"
    and "userProfiles (appData g) (ToString (userId params)) = Some profile"
    and "categoryAverages (appData g) (ToString (category params)) = Some avg"
  shows "\<exists>r n. fst (generateRecommendation params g) = Inr r \<and> amount r = Own n \<and>
           js_ge n (Fin 50)"
proof -
  from assms have "positive_number (avg_amount profile)" and "positive_number avg"
    by (simp_all add: literal_profiles_positive literal_averages_positive)
  from assms(2,3) clamped_amount_at_least_50 [OF this] show ?thesis
    by (simp add: generateRecommendation_known get_prop_def)
qed

lemma lowest_literal_amount:
  "fst (generateRecommendation
     \<lparr>userId = SStr ''USER_0755'', category = SStr ''Transportation'',
      location = SStr ''Chennai'', paymentMethod = SStr ''Wallet'', hour = SStr ''3''\<rparr>
     (globals_loaded :: unit globals))
   = Inr \<lparr>amount = Own (Fin 118), confidence = Fin 95,
           cluster = SStr ''Frequent Small Transactions'',
           reasoning = ''Based on Frequent Small Transactions spending pattern, Transportation preferences, and transaction time analysis''\<rparr>"
  by (simp add: scorer_eval globals_loaded_def appData_literal_def parseInt_eval round64_eval)

section \<open>The scenario of the first user\<close>

text \<open>
  The doubles of the scenario: \<open>398 / 500\<close> is the double \<open>0.796\<close>, and the product
  \<open>1017 * 0.796 * 1.2\<close> is a double just above \<open>971.4384\<close>.
\<close>

lemma scenario_arithmetic:
  "num_div (Fin 398) (Fin 500) = round64 (796 / 1000)"
  "hourMultiplier (Fin 13) = round64 (12 / 10)"
  "num_mult (num_mult (Fin 1017) (round64 (796 / 1000))) (round64 (12 / 10))
     = Fin (1068107816468113 / 2 ^ 40)"
  "Math_round (Fin (1068107816468113 / 2 ^ 40)) = Fin 971"
  by (simp_all add: hourMultiplier_def js_ge_def round64_eval)

text \<open>
  Claim C5.  A profile with average amount 1017, 8 transactions and the preferred category
  Entertainment; a request at hour 13 for another category, whose average is 398.  Then the
  category multiplier is \<open>0.796\<close>, the hour multiplier \<open>1.2\<close>, the rounded product 971 (in doubles
  as in exact arithmetic), and the call returns the amount 971 with the confidence 70.
\<close>

theorem scenario_user_0001:
  assumes "userProfiles (appData g) (ToString (userId params)) = Some profile"
    and "avg_amount profile = Fin 1017"
    and "transactions profile = Fin 8"
    and "preferred_category profile = ''Entertainment''"
    and "categoryAverages (appData g) (ToString (category params)) = Some (Fin 398)"
    and "category params \<noteq> SStr ''Entertainment''"
    and "parseInt (ToString (hour params)) = Fin 13"
  shows "num_div (Fin 398) (Fin 500) = round64 (796 / 1000) \<and>
    hourMultiplier (Fin 13) = round64 (12 / 10) \<and>
    Math_round (num_mult (num_mult (Fin 1017) (round64 (796 / 1000))) (round64 (12 / 10)))
      = Fin 971 \<and>
    \<lfloor>1017 * (796 / 1000) * (12 / 10) + 1 / 2 :: rat\<rfloor> = 971 \<and>
    (\<exists>r. fst (generateRecommendation params g) = Inr r \<and>
       amount r = Own (Fin 971) \<and> confidence r = Fin 70)"
proof -
  have exact: "\<lfloor>1017 * (796 / 1000) * (12 / 10) + 1 / 2 :: rat\<rfloor> = 971"
    by (simp add: floor_rat_numeral)
  have rounded: "Math_round (num_mult (num_mult (Fin 1017) (round64 (796 / 1000)))
      (round64 (12 / 10))) = Fin 971"
    by (simp only: scenario_arithmetic)
  have "Math_max (Math_round (num_mult (num_mult (Fin 1017) (num_div (Fin 398) (Fin 500)))
      (hourMultiplier (Fin 13)))) (Fin 50) = Fin 971"
    by (simp only: scenario_arithmetic) simp
  with assms have "\<exists>r. fst (generateRecommendation params g) = Inr r \<and>
       amount r = Own (Fin 971) \<and> confidence r = Fin 70"
    by (simp add: generateRecommendation_known get_prop_def)
  with exact rounded scenario_arithmetic(1,2) show ?thesis
    by blast
qed

text \<open>
  In the tables of the source the one category with the average 398 is Entertainment itself,
  so the example adds a category Cinema with that average.
\<close>

theorem scenario_user_0001_witness:
  "userProfiles (appData globals_cinema) ''USER_0001''
     = Some \<lparr>avg_amount = Fin 1017, cluster = Fin 1, cluster_name = ''High-Value Users'',
             transactions = Fin 8, preferred_category = ''Entertainment''\<rparr>
   \<and> categoryAverages (appData globals_cinema) ''Cinema'' = Some (Fin 398)
   \<and> SStr ''Cinema'' \<noteq> SStr ''Entertainment''
   \<and> parseInt ''13'' = Fin 13
   \<and> (\<exists>r. fst (generateRecommendation
              \<lparr>userId = SStr ''USER_0001'', category = SStr ''Cinema'',
               location = SStr ''Mumbai'', paymentMethod = SStr ''UPI'', hour = SStr ''13''\<rparr>
              globals_cinema) = Inr r
          \<and> amount r = Own (Fin 971) \<and> confidence r = Fin 70)"
proof -
  let ?p = "\<lparr>userId = SStr ''USER_0001'', category = SStr ''Cinema'',
             location = SStr ''Mumbai'', paymentMethod = SStr ''UPI'', hour = SStr ''13''\<rparr>"
  let ?u = "\<lparr>avg_amount = Fin 1017, cluster = Fin 1, cluster_name = ''High-Value Users'',
             transactions = Fin 8, preferred_category = ''Entertainment''\<rparr>"
  have u: "userProfiles (appData globals_cinema) (ToString (userId ?p)) = Some ?u"
    by (simp add: globals_cinema_def globals_loaded_def appData_literal_def)
  have c: "categoryAverages (appData globals_cinema) (ToString (category ?p)) = Some (Fin 398)"
    by (simp add: globals_cinema_def globals_loaded_def appData_literal_def)
  have n: "category ?p \<noteq> SStr ''Entertainment''"
    by simp
  have h: "parseInt (ToString (hour ?p)) = Fin 13"
    by (simp add: parseInt_eval round64_eval)
  have f: "avg_amount ?u = Fin 1017" "transactions ?u = Fin 8"
    "preferred_category ?u = ''Entertainment''"
    by simp_all
  from scenario_user_0001 [OF u f c n h] u c n h show ?thesis
    by simp
qed

text \<open>
  On the tables of the source the same user asks for Entertainment: the same amount, and
  the confidence 90.
\<close>

lemma scenario_entertainment:
  "fst (generateRecommendation
     \<lparr>userId = SStr ''USER_0001'', category = SStr ''Entertainment'',
      location = SStr ''Mumbai'', paymentMethod = SStr ''UPI'', hour = SStr ''13''\<rparr>
     (globals_loaded :: unit globals))
   = Inr \<lparr>amount = Own (Fin 971), confidence = Fin 90,
           cluster = SStr ''High-Value Users'',
           reasoning = ''Based on High-Value Users spending pattern, Entertainment preferences, and transaction time analysis''\<rparr>"
  by (simp add: scorer_eval globals_loaded_def appData_literal_def parseInt_eval round64_eval)


section \<open>Determinism and the globals\<close>

text \<open>
  Claim C8.  A call leaves the globals as it found them (the tables, the chart registry); a
  second call with the same request, made in the globals the first call left, returns the
  same result; and the result depends on the globals through \<open>appData\<close> only.
\<close>

theorem scorer_deterministic_stateless:
  "snd (generateRecommendation params g) = g \<and>
   (case generateRecommendation params g of
      (r1, g1) \<Rightarrow> (case generateRecommendation params g1 of
         (r2, g2) \<Rightarrow> r2 = r1 \<and> g2 = g)) \<and>
   (appData g' = appData g \<longrightarrow>
      fst (generateRecommendation params g') = fst (generateRecommendation params g))"
proof -
  have s: "\<And>h. snd (generateRecommendation params h) = h"
    by (simp add: generateRecommendation_def Let_def)
  obtain r1 where r1: "generateRecommendation params g = (r1, g)"
    using s [of g] by (cases "generateRecommendation params g") simp
  have "appData g' = appData g \<longrightarrow>
      fst (generateRecommendation params g') = fst (generateRecommendation params g)"
    by (simp add: generateRecommendation_def Let_def)
  with s [of g] r1 show ?thesis
    by simp
qed

text \<open>The same request before and after the charts have been created.\<close>

theorem scorer_deterministic_stateless_witness:
  "appData globals_charted = appData (globals_loaded :: unit globals) \<and>
   globals_charted \<noteq> globals_loaded \<and>
   fst (generateRecommendation
          \<lparr>userId = SStr ''USER_0002'', category = SStr ''Fuel'',
           location = SStr ''Kolkata'', paymentMethod = SStr ''UPI'', hour = SStr ''7''\<rparr>
          globals_charted)
   = fst (generateRecommendation
          \<lparr>userId = SStr ''USER_0002'', category = SStr ''Fuel'',
           location = SStr ''Kolkata'', paymentMethod = SStr ''UPI'', hour = SStr ''7''\<rparr>
          (globals_loaded :: unit globals)) \<and>
   snd (generateRecommendation
          \<lparr>userId = SStr ''USER_0002'', category = SStr ''Fuel'',
           location = SStr ''Kolkata'', paymentMethod = SStr ''UPI'', hour = SStr ''7''\<rparr>
          globals_charted) = globals_charted"
proof -
  let ?p = "\<lparr>userId = SStr ''USER_0002'', category = SStr ''Fuel'',
           location = SStr ''Kolkata'', paymentMethod = SStr ''UPI'', hour = SStr ''7''\<rparr>"
  have a: "appData globals_charted = appData (globals_loaded :: unit globals)"
    by (simp add: globals_charted_def)
  have "charts globals_charted ''spending'' \<noteq> charts (globals_loaded :: unit globals) ''spending''"
    by (simp add: globals_charted_def globals_loaded_def)
  then have d: "globals_charted \<noteq> globals_loaded"
    by auto
  from scorer_deterministic_stateless [of ?p globals_charted globals_charted]
  have s: "snd (generateRecommendation ?p globals_charted) = globals_charted"
    by blast
  from scorer_deterministic_stateless [of ?p globals_loaded globals_charted] a
  have "fst (generateRecommendation ?p globals_charted)
      = fst (generateRecommendation ?p (globals_loaded :: unit globals))"
    by blast
  with a d s show ?thesis
    by blast
qed

section \<open>Location and payment method\<close>

text \<open>
  Claim C9.  Two requests with the same user id, category and hour get the same result,
  whatever their locations and payment methods are.
\<close>

theorem location_and_payment_ignored:
  assumes "userId p = userId q" and "category p = category q" and "hour p = hour q"
  shows "generateRecommendation p g = generateRecommendation q g"
  by (simp only: generateRecommendation_def assms)

text \<open>Two requests that differ in location and payment method, one of them with none.\<close>

theorem location_and_payment_ignored_witness:
  "generateRecommendation
      \<lparr>userId = SStr ''USER_0003'', category = SStr ''Groceries'',
       location = SStr ''Mumbai'', paymentMethod = SStr ''UPI'', hour = SStr ''19''\<rparr>
      (globals_loaded :: unit globals)
   = generateRecommendation
      \<lparr>userId = SStr ''USER_0003'', category = SStr ''Groceries'',
       location = SStr ''Jaipur'', paymentMethod = SUndefined, hour = SStr ''19''\<rparr>
      (globals_loaded :: unit globals)"
  using location_and_payment_ignored
    [of "\<lparr>userId = SStr ''USER_0003'', category = SStr ''Groceries'',
          location = SStr ''Mumbai'', paymentMethod = SStr ''UPI'', hour = SStr ''19''\<rparr>"
        "\<lparr>userId = SStr ''USER_0003'', category = SStr ''Groceries'',
          location = SStr ''Jaipur'', paymentMethod = SUndefined, hour = SStr ''19''\<rparr>"
        "globals_loaded :: unit globals"]
  by simp

section \<open>The range of the confidence\<close>

text \<open>
  Claim C10.  Every call returns normally, and its confidence is a number between 70 and 95:
  75 when the profile lookup gives \<open>undefined\<close>, and 70, 80, 90 or 95 otherwise.
\<close>

theorem confidence_range:
  "\<exists>r x. fst (generateRecommendation params g) = Inr r \<and> confidence r = Fin x \<and>
      70 \<le> x \<and> x \<le> 95"
proof (cases "get_prop (userProfiles (appData g)) (ToString (userId params))")
  case Undefined
  then show ?thesis
    by (simp add: generateRecommendation_def Let_def)
next
  case (Own p)
  then have "userProfiles (appData g) (ToString (userId params)) = Some p"
    by (simp add: get_prop_def split: option.splits if_splits)
  then show ?thesis
    by (simp add: generateRecommendation_known round64_small)
next
  case (Inherited k)
  then show ?thesis
    by (simp add: generateRecommendation_def Let_def round64_small)
qed

text \<open>An unknown user, a known one, and an inherited name with no category.\<close>

theorem confidence_range_witness:
  "(\<exists>r x. fst (generateRecommendation
       \<lparr>userId = SStr ''USER_9999'', category = SStr ''Shopping'',
        location = SStr ''Mumbai'', paymentMethod = SStr ''UPI'', hour = SStr ''13''\<rparr>
       (globals_loaded :: unit globals)) = Inr r \<and> confidence r = Fin x \<and> 70 \<le> x \<and> x \<le> 95) \<and>
   (\<exists>r x. fst (generateRecommendation
       \<lparr>userId = SStr ''USER_0655'', category = SStr ''Food & Dining'',
        location = SStr ''Delhi'', paymentMethod = SStr ''UPI'', hour = SStr ''20''\<rparr>
       (globals_loaded :: unit globals)) = Inr r \<and> confidence r = Fin x \<and> 70 \<le> x \<and> x \<le> 95) \<and>
   (\<exists>r x. fst (generateRecommendation
       \<lparr>userId = SStr ''valueOf'', category = SUndefined,
        location = SUndefined, paymentMethod = SUndefined, hour = SUndefined\<rparr>
       (globals_loaded :: unit globals)) = Inr r \<and> confidence r = Fin x \<and> 70 \<le> x \<and> x \<le> 95)"
  using
    confidence_range [of "\<lparr>userId = SStr ''USER_9999'', category = SStr ''Shopping'',
        location = SStr ''Mumbai'', paymentMethod = SStr ''UPI'', hour = SStr ''13''\<rparr>"
      "globals_loaded :: unit globals"]
    confidence_range [of "\<lparr>userId = SStr ''USER_0655'', category = SStr ''Food & Dining'',
        location = SStr ''Delhi'', paymentMethod = SStr ''UPI'', hour = SStr ''20''\<rparr>"
      "globals_loaded :: unit globals"]
    confidence_range [of "\<lparr>userId = SStr ''valueOf'', category = SUndefined,
        location = SUndefined, paymentMethod = SUndefined, hour = SUndefined\<rparr>"
      "globals_loaded :: unit globals"]
  by blast

lemma confidence_of_inherited_name:
  "fst (generateRecommendation
       \<lparr>userId = SStr ''valueOf'', category = SUndefined,
        location = SUndefined, paymentMethod = SUndefined, hour = SUndefined\<rparr>
       (globals_loaded :: unit globals))
   = Inr \<lparr>amount = Own NaN, confidence = Fin 90, cluster = SUndefined,
           reasoning = ''Based on undefined spending pattern, undefined preferences, and transaction time analysis''\<rparr>"
  by (simp add: scorer_eval globals_loaded_def appData_literal_def parseInt_eval round64_eval
      round64_small)

section \<open>Requests of unknown users\<close>

text \<open>
  When the profile lookup gives \<open>undefined\<close> (the user id is no key of the table and no name
  of a property of \<open>Object.prototype\<close>), the call returns the category's average when the
  table holds one, 500 when the category lookup gives \<open>undefined\<close>, the confidence 75 and
  the cluster Unknown.
\<close>

lemma unknown_user_fallback:
  assumes "userProfiles (appData g) (ToString (userId params)) = None"
    and "ToString (userId params) \<notin> set Object_prototype_names"
  shows "categoryAverages (appData g) (ToString (category params)) = Some avg \<Longrightarrow>
           positive_number avg \<Longrightarrow>
           fst (generateRecommendation params g)
             = Inr \<lparr>amount = Own avg, confidence = Fin 75, cluster = SStr ''Unknown'',
                    reasoning = ''Based on category average and system patterns''\<rparr>"
    and "categoryAverages (appData g) (ToString (category params)) = None \<Longrightarrow>
           ToString (category params) \<notin> set Object_prototype_names \<Longrightarrow>
           fst (generateRecommendation params g)
             = Inr \<lparr>amount = Own (Fin 500), confidence = Fin 75, cluster = SStr ''Unknown'',
                    reasoning = ''Based on category average and system patterns''\<rparr>"
  using assms by (cases avg; simp add: generateRecommendation_def get_prop_def)+

text \<open>On the tables of the source: an unknown id, a missing id and the empty id.\<close>

lemma unknown_user_literal:
  "fst (generateRecommendation
     \<lparr>userId = SStr ''USER_9999'', category = SStr ''Shopping'',
      location = SStr ''Mumbai'', paymentMethod = SStr ''UPI'', hour = SStr ''13''\<rparr>
     (globals_loaded :: unit globals))
   = Inr \<lparr>amount = Own (Fin 842), confidence = Fin 75, cluster = SStr ''Unknown'',
           reasoning = ''Based on category average and system patterns''\<rparr>"
  "fst (generateRecommendation
     \<lparr>userId = SUndefined, category = SStr ''Travel'',
      location = SStr ''Mumbai'', paymentMethod = SStr ''UPI'', hour = SStr ''13''\<rparr>
     (globals_loaded :: unit globals))
   = Inr \<lparr>amount = Own (Fin 500), confidence = Fin 75, cluster = SStr ''Unknown'',
           reasoning = ''Based on category average and system patterns''\<rparr>"
  "fst (generateRecommendation
     \<lparr>userId = SStr [], category = SStr ''Fuel'',
      location = SStr ''Mumbai'', paymentMethod = SStr ''UPI'', hour = SStr ''13''\<rparr>
     (globals_loaded :: unit globals))
   = Inr \<lparr>amount = Own (Fin 512), confidence = Fin 75, cluster = SStr ''Unknown'',
           reasoning = ''Based on category average and system patterns''\<rparr>"
  by (simp_all add: scorer_eval globals_loaded_def appData_literal_def)

text \<open>
  Claim C3 says the same of every user id that is no key of the profile table.  The code
  tests the lookup's result for truthiness, and the lookup \<open>appData.userProfiles[userId]\<close>
  also finds what the table inherits: for the id \<open>constructor\<close> it finds the function
  \<open>Object\<close>, takes the branch of known users, reads four fields the function does not have,
  and returns the amount NaN, the confidence 70 and no cluster.
\<close>

theorem inherited_name_as_user_id:
  "userProfiles (appData (globals_loaded :: unit globals)) ''constructor'' = None \<and>
   categoryAverages (appData (globals_loaded :: unit globals)) ''Shopping'' = Some (Fin 842) \<and>
   fst (generateRecommendation
     \<lparr>userId = SStr ''constructor'', category = SStr ''Shopping'',
      location = SStr ''Mumbai'', paymentMethod = SStr ''UPI'', hour = SStr ''13''\<rparr>
     (globals_loaded :: unit globals))
   = Inr \<lparr>amount = Own NaN, confidence = Fin 70, cluster = SUndefined,
           reasoning = ''Based on undefined spending pattern, Shopping preferences, and transaction time analysis''\<rparr>"
  by (simp add: scorer_eval globals_loaded_def appData_literal_def parseInt_eval round64_eval)

text \<open>
  So it is for each of the twelve inherited names, on every table that does not hold the
  name as a key of its own.
\<close>

lemma inherited_user_id_result:
  assumes "userProfiles (appData g) (ToString (userId params)) = None"
    and "ToString (userId params) \<in> set Object_prototype_names"
  shows "fst (generateRecommendation params g)
    = Inr \<lparr>amount = Own NaN,
           confidence = (if category params = SUndefined then Fin 90 else Fin 70),
           cluster = SUndefined,
           reasoning = ''Based on undefined spending pattern, '' @ ToString (category params)
             @ '' preferences, and transaction time analysis''\<rparr>"
  using assms by (simp add: generateRecommendation_def get_prop_def round64_small)

text \<open>
  The category lookup inherits alike: for an unknown user and the category \<open>toString\<close> the
  amount is the inherited function, not 500.
\<close>

lemma inherited_name_as_category:
  "userProfiles (appData (globals_loaded :: unit globals)) ''USER_9999'' = None \<and>
   categoryAverages (appData (globals_loaded :: unit globals)) ''toString'' = None \<and>
   fst (generateRecommendation
     \<lparr>userId = SStr ''USER_9999'', category = SStr ''toString'',
      location = SStr ''Mumbai'', paymentMethod = SStr ''UPI'', hour = SStr ''13''\<rparr>
     (globals_loaded :: unit globals))
   = Inr \<lparr>amount = Inherited ''toString'', confidence = Fin 75, cluster = SStr ''Unknown'',
           reasoning = ''Based on category average and system patterns''\<rparr>"
  by (simp add: scorer_eval globals_loaded_def appData_literal_def)

end
